theory Spec2Isabelle
  imports Complex_Main "HOL-Library.Sublist"
begin

section \<open>Values, documents and exceptions\<close>

text \<open>
  A document is a Python dict with string keys: an association list, in insertion
  order. The values that occur in the two schemas and in the seed data are strings,
  integers, floats (taken as reals: the code only stores them and compares them with
  zero), booleans, \<open>None\<close>, and the identifier the store assigns. A \<open>string\<close> is a list
  of characters, one \<open>char\<close> standing for one character of a Python \<open>str\<close>.
\<close>

datatype val = VNone | VBool bool | VInt int | VFloat real | VStr string | VObjectId nat

type_synonym document = "(string \<times> val) list"

text \<open>\<open>d.pop(k, None)\<close>: the dict without the key; no error when the key is absent.\<close>

definition dict_pop :: "string \<Rightarrow> document \<Rightarrow> document" where
  "dict_pop k d = filter (\<lambda>kv. fst kv \<noteq> k) d"

text \<open>
  Exceptions are values. \<open>HTTPException\<close> is raised by the handlers of \<open>main.py\<close>;
  \<open>RequestValidationError\<close> is the rejection of a request body by schema validation, with
  the offending fields; \<open>StoreError\<close> is an exception of the document store, with its
  message. \<open>NotModelled\<close> marks a query whose pattern lies outside the fragment of the
  store's pattern language that this development covers.
\<close>

datatype exn =
    HTTPException nat string
  | RequestValidationError "string list"
  | StoreError string
  | NotModelled

text \<open>
  \<open>str(e)\<close>, the message of an exception. Only an exception of the store reaches a
  handler that reads the message; the other cases give the text the exception carries.
\<close>

fun exn_str :: "exn \<Rightarrow> string" where
  "exn_str (StoreError msg) = msg"
| "exn_str (HTTPException code detail) = detail"
| "exn_str (RequestValidationError fields) = concat fields"
| "exn_str NotModelled = []"

text \<open>
  The status code of a response: the route's success code when the handler returns, the
  code of an \<open>HTTPException\<close>, 422 for a body that fails validation, 500 for any other
  exception that leaves the handler.
\<close>

fun http_status :: "nat \<Rightarrow> exn + 'a \<Rightarrow> nat option" where
  "http_status ok (Inr r) = Some ok"
| "http_status ok (Inl (HTTPException code detail)) = Some code"
| "http_status ok (Inl (RequestValidationError fields)) = Some 422"
| "http_status ok (Inl (StoreError msg)) = Some 500"
| "http_status ok (Inl NotModelled) = None"

text \<open>Python truthiness of an \<open>Optional[str]\<close>: \<open>None\<close> and the empty string are false.\<close>

fun truthy :: "string option \<Rightarrow> bool" where
  "truthy None = False"
| "truthy (Some s) = (s \<noteq> [])"

section \<open>Query filters\<close>

text \<open>
  The filter dict that \<open>list_products\<close> builds maps a field either to a value
  (equality) or to \<open>{"$regex": pattern, "$options": options}\<close>.
\<close>

datatype cond = Equals val | Regex string string

type_synonym filter_doc = "(string \<times> cond) list"

text \<open>
  Modelled from the spec: the pattern matching of the document store, which is not part
  of the sources. The spec calls the filters "equality/regex filters" and the pattern a
  "case-insensitive substring pattern": the pattern is a regular expression searched
  anywhere in the field. The fragment covered here is: an ordinary character, which
  stands for itself, and the dot, which stands for any character but a line feed. A
  pattern with any other metacharacter is outside the fragment. Option \<open>i\<close> makes
  letters match regardless of case (ASCII letters here).
\<close>

datatype pat_item = PChar char | PAny

definition regex_other_meta :: string where
  "regex_other_meta = CHR 0x5C # ''^$[]|()?*+{}''"

fun compile_pattern :: "string \<Rightarrow> pat_item list option" where
  "compile_pattern [] = Some []"
| "compile_pattern (c # cs) =
     (if c \<in> set regex_other_meta then None
      else case compile_pattern cs of
             None \<Rightarrow> None
           | Some ps \<Rightarrow> Some ((if c = CHR ''.'' then PAny else PChar c) # ps))"

definition lower :: "char \<Rightarrow> char" where
  "lower c =
     (case map_of (zip ''ABCDEFGHIJKLMNOPQRSTUVWXYZ'' ''abcdefghijklmnopqrstuvwxyz'') c of
        None \<Rightarrow> c
      | Some l \<Rightarrow> l)"

fun item_matches :: "bool \<Rightarrow> pat_item \<Rightarrow> char \<Rightarrow> bool" where
  "item_matches ci (PChar c) d = (if ci then lower c = lower d else c = d)"
| "item_matches ci PAny d = (d \<noteq> CHR 0x0A)"

fun match_here :: "bool \<Rightarrow> pat_item list \<Rightarrow> string \<Rightarrow> bool" where
  "match_here ci [] s = True"
| "match_here ci (p # ps) [] = False"
| "match_here ci (p # ps) (d # ds) = (item_matches ci p d \<and> match_here ci ps ds)"

fun regex_search :: "bool \<Rightarrow> pat_item list \<Rightarrow> string \<Rightarrow> bool" where
  "regex_search ci ps [] = match_here ci ps []"
| "regex_search ci ps (d # ds) = (match_here ci ps (d # ds) \<or> regex_search ci ps ds)"

datatype ccond = CEquals val | CRegex bool "pat_item list"

fun compile_cond :: "cond \<Rightarrow> ccond option" where
  "compile_cond (Equals v) = Some (CEquals v)"
| "compile_cond (Regex pat opts) =
     (case compile_pattern pat of
        None \<Rightarrow> None
      | Some ps \<Rightarrow> Some (CRegex (CHR ''i'' \<in> set opts) ps))"

fun compile_filter :: "filter_doc \<Rightarrow> (string \<times> ccond) list option" where
  "compile_filter [] = Some []"
| "compile_filter ((k, c) # f) =
     (case compile_cond c of
        None \<Rightarrow> None
      | Some cc \<Rightarrow> (case compile_filter f of
                     None \<Rightarrow> None
                   | Some cf \<Rightarrow> Some ((k, cc) # cf)))"

text \<open>A condition on a field of a document; an absent field equals only \<open>None\<close>.\<close>

fun ccond_holds :: "ccond \<Rightarrow> val option \<Rightarrow> bool" where
  "ccond_holds (CEquals v) None = (v = VNone)"
| "ccond_holds (CEquals v) (Some w) = (v = w)"
| "ccond_holds (CRegex ci ps) (Some (VStr s)) = regex_search ci ps s"
| "ccond_holds (CRegex ci ps) other = False"

definition doc_matches :: "(string \<times> ccond) list \<Rightarrow> document \<Rightarrow> bool" where
  "doc_matches cf d = list_all (\<lambda>kc. ccond_holds (snd kc) (map_of d (fst kc))) cf"

section \<open>The document store\<close>

text \<open>
  Modelled from the spec: the persistence adapter (module \<open>database\<close>: \<open>db\<close>,
  \<open>create_document\<close>, \<open>get_documents\<close>) and the store behind it are not part of the
  sources. The store holds named collections of documents in insertion order and
  assigns identifiers from a counter. \<open>faults\<close> is the schedule of the store's
  availability: each operation consumes its head, and \<open>Some msg\<close> there makes the
  operation raise with that message; an exhausted schedule means the store is reachable.
  \<open>db_name\<close> is the handle's \<open>name\<close> attribute, where it has one.
\<close>

record store =
  colls :: "(string \<times> document list) list"
  next_id :: nat
  faults :: "string option list"
  db_name :: "string option"

definition collection :: "store \<Rightarrow> string \<Rightarrow> document list" where
  "collection st cname = (case map_of (colls st) cname of None \<Rightarrow> [] | Some ds \<Rightarrow> ds)"

fun put_collection ::
  "string \<Rightarrow> document list \<Rightarrow> (string \<times> document list) list \<Rightarrow> (string \<times> document list) list"
where
  "put_collection cname ds [] = [(cname, ds)]"
| "put_collection cname ds ((k, old) # cs) =
     (if k = cname then (k, ds) # cs else (k, old) # put_collection cname ds cs)"

text \<open>One access to the store: the next entry of the fault schedule decides it.\<close>

definition access :: "store \<Rightarrow> exn option \<times> store" where
  "access st =
     (case faults st of
        [] \<Rightarrow> (None, st)
      | None # fs \<Rightarrow> (None, st\<lparr>faults := fs\<rparr>)
      | Some msg # fs \<Rightarrow> (Some (StoreError msg), st\<lparr>faults := fs\<rparr>))"

text \<open>\<open>db[cname].count_documents({})\<close> and \<open>db.list_collection_names()\<close>.\<close>

definition count_documents :: "store \<Rightarrow> string \<Rightarrow> (exn + nat) \<times> store" where
  "count_documents st cname =
     (case access st of
        (Some e, st') \<Rightarrow> (Inl e, st')
      | (None, st') \<Rightarrow> (Inr (length (collection st' cname)), st'))"

definition list_collection_names :: "store \<Rightarrow> (exn + string list) \<times> store" where
  "list_collection_names st =
     (case access st of
        (Some e, st') \<Rightarrow> (Inl e, st')
      | (None, st') \<Rightarrow> (Inr (map fst (colls st')), st'))"

section \<open>Schemas\<close>

text \<open>
  \<open>schemas.py\<close>: a validated \<open>Product\<close> and a validated \<open>Inquiry\<close>. The two classes
  share field names, so the fields carry the prefix \<open>p_\<close> or \<open>i_\<close> here.
\<close>

record product =
  p_name :: string
  p_brand :: string
  p_type :: string
  p_capacity_ah :: "real option"
  p_warranty_months :: "int option"
  p_price :: "real option"
  p_description :: "string option"
  p_in_stock :: bool

record inquiry =
  i_name :: string
  i_phone :: string
  i_message :: "string option"
  i_product_type :: "string option"
  i_brand :: "string option"
  i_preferred_contact :: string
  i_city :: "string option"

text \<open>
  One field of a request body, as it reaches validation: the key is absent
  (\<open>Missing\<close>), its value is \<open>null\<close>, it has a value that the declared type reads as
  \<open>v\<close> (\<open>Value v\<close>), or it has a value that the declared type cannot read
  (\<open>Malformed\<close>). How the validation library reads a value at a type is not part
  of the repository; what \<open>schemas.py\<close> declares is which fields are required, which
  may be \<open>None\<close>, the defaults, the enumerations and the bounds.
\<close>

datatype 'a raw = Missing | Null | Malformed | Value 'a

record product_body =
  b_name :: "string raw"
  b_brand :: "string raw"
  b_type :: "string raw"
  b_capacity_ah :: "real raw"
  b_warranty_months :: "int raw"
  b_price :: "real raw"
  b_description :: "string raw"
  b_in_stock :: "bool raw"

record inquiry_body =
  q_name :: "string raw"
  q_phone :: "string raw"
  q_message :: "string raw"
  q_product_type :: "string raw"
  q_brand :: "string raw"
  q_preferred_contact :: "string raw"
  q_city :: "string raw"

text \<open>The field declarations; \<open>None\<close> is a validation error on the field.\<close>

fun required :: "'a raw \<Rightarrow> 'a option" where
  "required (Value v) = Some v"
| "required other = None"

fun required_literal :: "string list \<Rightarrow> string raw \<Rightarrow> string option" where
  "required_literal allowed (Value s) = (if s \<in> set allowed then Some s else None)"
| "required_literal allowed other = None"

fun literal_default :: "string list \<Rightarrow> string \<Rightarrow> string raw \<Rightarrow> string option" where
  "literal_default allowed dflt Missing = Some dflt"
| "literal_default allowed dflt (Value s) = (if s \<in> set allowed then Some s else None)"
| "literal_default allowed dflt other = None"

fun optional_default :: "'a option \<Rightarrow> 'a raw \<Rightarrow> 'a option option" where
  "optional_default dflt Missing = Some dflt"
| "optional_default dflt Null = Some None"
| "optional_default dflt (Value v) = Some (Some v)"
| "optional_default dflt Malformed = None"

fun optional_ge0 :: "('a :: linordered_idom) raw \<Rightarrow> 'a option option" where
  "optional_ge0 Missing = Some None"
| "optional_ge0 Null = Some None"
| "optional_ge0 (Value v) = (if 0 \<le> v then Some (Some v) else None)"
| "optional_ge0 Malformed = None"

fun with_default :: "'a \<Rightarrow> 'a raw \<Rightarrow> 'a option" where
  "with_default dflt Missing = Some dflt"
| "with_default dflt (Value v) = Some v"
| "with_default dflt other = None"

definition brand_literals :: "string list" where
  "brand_literals = [''Amaron'', ''Exide'', ''Luminous'']"

definition type_literals :: "string list" where
  "type_literals = [''bike-battery'', ''car-battery'', ''inverter'', ''inverter-battery'']"

definition contact_literals :: "string list" where
  "contact_literals = [''call'', ''whatsapp'']"

text \<open>The name of a field whose validation failed, for the error report.\<close>

fun field_error :: "string \<Rightarrow> 'a option \<Rightarrow> string list" where
  "field_error fname None = [fname]"
| "field_error fname (Some v) = []"

definition validate_product :: "product_body \<Rightarrow> exn + product" where
  "validate_product b =
     (let v_name = required (b_name b);
          v_brand = required_literal brand_literals (b_brand b);
          v_type = required_literal type_literals (b_type b);
          v_capacity_ah = optional_ge0 (b_capacity_ah b);
          v_warranty_months = optional_ge0 (b_warranty_months b);
          v_price = optional_ge0 (b_price b);
          v_description = optional_default None (b_description b);
          v_in_stock = with_default True (b_in_stock b)
      in case (v_name, v_brand, v_type, v_capacity_ah, v_warranty_months, v_price,
               v_description, v_in_stock) of
           (Some n, Some br, Some ty, Some cap, Some war, Some pr, Some de, Some st) \<Rightarrow>
             Inr \<lparr>p_name = n, p_brand = br, p_type = ty, p_capacity_ah = cap,
                  p_warranty_months = war, p_price = pr, p_description = de,
                  p_in_stock = st\<rparr>
         | other \<Rightarrow>
             Inl (RequestValidationError
                   (field_error ''name'' v_name @ field_error ''brand'' v_brand @
                    field_error ''type'' v_type @ field_error ''capacity_ah'' v_capacity_ah @
                    field_error ''warranty_months'' v_warranty_months @
                    field_error ''price'' v_price @ field_error ''description'' v_description @
                    field_error ''in_stock'' v_in_stock)))"

definition validate_inquiry :: "inquiry_body \<Rightarrow> exn + inquiry" where
  "validate_inquiry b =
     (let v_name = required (q_name b);
          v_phone = required (q_phone b);
          v_message = optional_default None (q_message b);
          v_product_type = optional_default None (q_product_type b);
          v_brand = optional_default None (q_brand b);
          v_preferred_contact =
            literal_default contact_literals ''whatsapp'' (q_preferred_contact b);
          v_city = optional_default (Some ''Veraval, Gir Somnath'') (q_city b)
      in case (v_name, v_phone, v_message, v_product_type, v_brand, v_preferred_contact,
               v_city) of
           (Some n, Some ph, Some me, Some pt, Some br, Some pc, Some ci) \<Rightarrow>
             Inr \<lparr>i_name = n, i_phone = ph, i_message = me, i_product_type = pt,
                  i_brand = br, i_preferred_contact = pc, i_city = ci\<rparr>
         | other \<Rightarrow>
             Inl (RequestValidationError
                   (field_error ''name'' v_name @ field_error ''phone'' v_phone @
                    field_error ''message'' v_message @
                    field_error ''product_type'' v_product_type @
                    field_error ''brand'' v_brand @
                    field_error ''preferred_contact'' v_preferred_contact @
                    field_error ''city'' v_city)))"

text \<open>A validated record as a mapping of field to value, in the order of the class.\<close>

fun opt_val :: "('a \<Rightarrow> val) \<Rightarrow> 'a option \<Rightarrow> val" where
  "opt_val f None = VNone"
| "opt_val f (Some v) = f v"

definition product_dump :: "product \<Rightarrow> document" where
  "product_dump p =
     [(''name'', VStr (p_name p)), (''brand'', VStr (p_brand p)), (''type'', VStr (p_type p)),
      (''capacity_ah'', opt_val VFloat (p_capacity_ah p)),
      (''warranty_months'', opt_val VInt (p_warranty_months p)),
      (''price'', opt_val VFloat (p_price p)),
      (''description'', opt_val VStr (p_description p)),
      (''in_stock'', VBool (p_in_stock p))]"

definition inquiry_dump :: "inquiry \<Rightarrow> document" where
  "inquiry_dump i =
     [(''name'', VStr (i_name i)), (''phone'', VStr (i_phone i)),
      (''message'', opt_val VStr (i_message i)),
      (''product_type'', opt_val VStr (i_product_type i)),
      (''brand'', opt_val VStr (i_brand i)),
      (''preferred_contact'', VStr (i_preferred_contact i)),
      (''city'', opt_val VStr (i_city i))]"

section \<open>The persistence adapter\<close>

text \<open>
  Modelled from the spec: \<open>create_document\<close> and \<open>get_documents\<close> of the module
  \<open>database\<close>, which is not part of the sources. The spec: insert "accepts a mapping of
  field to value (or a validated record coerced to such a mapping), inserts it into the
  named collection, returns the newly assigned identifier"; query "returns up to
  \<open>limit\<close> matching records in the store's natural order", each with its storage
  identifier, which the caller strips. The identifier is returned as the number the
  store assigned; its rendering as text is left out.
\<close>

datatype record_data = Dict document | ProductModel product | InquiryModel inquiry

fun to_mapping :: "record_data \<Rightarrow> document" where
  "to_mapping (Dict d) = d"
| "to_mapping (ProductModel p) = product_dump p"
| "to_mapping (InquiryModel i) = inquiry_dump i"

definition create_document :: "store \<Rightarrow> string \<Rightarrow> record_data \<Rightarrow> (exn + nat) \<times> store" where
  "create_document st cname data =
     (case access st of
        (Some e, st') \<Rightarrow> (Inl e, st')
      | (None, st') \<Rightarrow>
          (let new_id = next_id st';
               doc = (''_id'', VObjectId new_id) # to_mapping data
           in (Inr new_id,
               st'\<lparr>colls := put_collection cname (collection st' cname @ [doc]) (colls st'),
                   next_id := Suc new_id\<rparr>)))"

definition get_documents ::
  "store \<Rightarrow> string \<Rightarrow> filter_doc \<Rightarrow> int \<Rightarrow> (exn + document list) \<times> store"
where
  "get_documents st cname filters limit =
     (case compile_filter filters of
        None \<Rightarrow> (Inl NotModelled, st)
      | Some cf \<Rightarrow>
          (case access st of
             (Some e, st') \<Rightarrow> (Inl e, st')
           | (None, st') \<Rightarrow>
               (Inr (take (nat limit) (filter (doc_matches cf) (collection st' cname))), st')))"

section \<open>Startup: the seed step\<close>

definition samples :: "document list" where
  "samples =
     [[(''name'', VStr ''Amaron Pro Rider''), (''brand'', VStr ''Amaron''),
       (''type'', VStr ''bike-battery''), (''capacity_ah'', VFloat 9),
       (''warranty_months'', VInt 48), (''price'', VFloat 1699),
       (''description'', VStr ''Maintenance-free bike battery''), (''in_stock'', VBool True)],
      [(''name'', VStr ''Exide Xplore''), (''brand'', VStr ''Exide''),
       (''type'', VStr ''bike-battery''), (''capacity_ah'', VFloat 9),
       (''warranty_months'', VInt 48), (''price'', VFloat 1599),
       (''description'', VStr ''Reliable performance for bikes''), (''in_stock'', VBool True)],
      [(''name'', VStr ''Amaron Flo 55B24L''), (''brand'', VStr ''Amaron''),
       (''type'', VStr ''car-battery''), (''capacity_ah'', VFloat 45),
       (''warranty_months'', VInt 48), (''price'', VFloat 5499),
       (''description'', VStr ''High cranking power''), (''in_stock'', VBool True)],
      [(''name'', VStr ''Exide Mileage 35L''), (''brand'', VStr ''Exide''),
       (''type'', VStr ''car-battery''), (''capacity_ah'', VFloat 35),
       (''warranty_months'', VInt 44), (''price'', VFloat 4899),
       (''description'', VStr ''Long life, low maintenance''), (''in_stock'', VBool True)],
      [(''name'', VStr ''Luminous Zelio+ 1100''), (''brand'', VStr ''Luminous''),
       (''type'', VStr ''inverter''), (''capacity_ah'', VNone),
       (''warranty_months'', VInt 24), (''price'', VFloat 6999),
       (''description'', VStr ''Pure sine wave inverter''), (''in_stock'', VBool True)],
      [(''name'', VStr ''Luminous RC 18000''), (''brand'', VStr ''Luminous''),
       (''type'', VStr ''inverter-battery''), (''capacity_ah'', VFloat 150),
       (''warranty_months'', VInt 36), (''price'', VFloat 13499),
       (''description'', VStr ''Tubular inverter battery''), (''in_stock'', VBool True)]]"

text \<open>\<open>for s in samples: create_document("product", s)\<close>; an exception ends the loop.\<close>

fun create_all :: "store \<Rightarrow> string \<Rightarrow> document list \<Rightarrow> (exn + unit) \<times> store" where
  "create_all st cname [] = (Inr (), st)"
| "create_all st cname (s # ss) =
     (case create_document st cname (Dict s) of
        (Inl e, st') \<Rightarrow> (Inl e, st')
      | (Inr new_id, st') \<Rightarrow> create_all st' cname ss)"

text \<open>The body of the \<open>try\<close> block of \<open>seed_products\<close>.\<close>

definition seed_try :: "store \<Rightarrow> (exn + unit) \<times> store" where
  "seed_try st =
     (case count_documents st ''product'' of
        (Inl e, st') \<Rightarrow> (Inl e, st')
      | (Inr count, st') \<Rightarrow>
          (if count = 0 then create_all st' ''product'' samples else (Inr (), st')))"

text \<open>
  \<open>seed_products\<close>: nothing without a handle; otherwise the \<open>try\<close> block, with
  \<open>except Exception: pass\<close>. The first component is what reaches the caller.
\<close>

definition seed_products :: "store option \<Rightarrow> (exn + unit) \<times> store option" where
  "seed_products db =
     (case db of
        None \<Rightarrow> (Inr (), None)
      | Some st \<Rightarrow>
          (case seed_try st of
             (Inl e, st') \<Rightarrow> (Inr (), Some st')
           | (Inr u, st') \<Rightarrow> (Inr u, Some st')))"

section \<open>Routes\<close>

record products_response =
  items :: "document list"
  total :: nat

record created_response =
  new_id :: nat
  message :: string

text \<open>\<open>if v: filters[k] = ...\<close> for an optional string parameter.\<close>

fun add_filter :: "string \<Rightarrow> (string \<Rightarrow> cond) \<Rightarrow> string option \<Rightarrow> filter_doc \<Rightarrow> filter_doc" where
  "add_filter k mk None filters = filters"
| "add_filter k mk (Some s) filters = (if s \<noteq> [] then filters @ [(k, mk s)] else filters)"

text \<open>
  \<open>list_products\<close>. A parameter that the request omits is \<open>None\<close>; for \<open>limit\<close> the
  default of the signature, 50, takes its place.
\<close>

definition list_products ::
  "store option \<Rightarrow> string option \<Rightarrow> string option \<Rightarrow> string option \<Rightarrow> int option \<Rightarrow>
   (exn + products_response) \<times> store option"
where
  "list_products db brand type' q limit_arg =
     (let limit = (case limit_arg of None \<Rightarrow> 50 | Some n \<Rightarrow> n)
      in case db of
           None \<Rightarrow> (Inl (HTTPException 500 ''Database not connected''), db)
         | Some st \<Rightarrow>
             (let filters = add_filter ''brand'' (\<lambda>s. Equals (VStr s)) brand [];
                  filters = add_filter ''type'' (\<lambda>s. Equals (VStr s)) type' filters;
                  filters = add_filter ''name'' (\<lambda>s. Regex s ''i'') q filters
              in case get_documents st ''product'' filters limit of
                   (Inl e, st') \<Rightarrow> (Inl e, Some st')
                 | (Inr docs, st') \<Rightarrow>
                     (let its = map (dict_pop ''_id'') docs
                      in (Inr \<lparr>items = its, total = length its\<rparr>, Some st'))))"

definition add_product :: "store option \<Rightarrow> product \<Rightarrow> (exn + created_response) \<times> store option" where
  "add_product db product =
     (case db of
        None \<Rightarrow> (Inl (HTTPException 500 ''Database not connected''), db)
      | Some st \<Rightarrow>
          (case create_document st ''product'' (ProductModel product) of
             (Inl e, st') \<Rightarrow> (Inl e, Some st')
           | (Inr i, st') \<Rightarrow> (Inr \<lparr>new_id = i, message = ''Product added''\<rparr>, Some st')))"

definition create_inquiry :: "store option \<Rightarrow> inquiry \<Rightarrow> (exn + created_response) \<times> store option" where
  "create_inquiry db inquiry =
     (case db of
        None \<Rightarrow> (Inl (HTTPException 500 ''Database not connected''), db)
      | Some st \<Rightarrow>
          (case create_document st ''inquiry'' (InquiryModel inquiry) of
             (Inl e, st') \<Rightarrow> (Inl e, Some st')
           | (Inr i, st') \<Rightarrow>
               (Inr \<lparr>new_id = i, message = ''Thanks! We will contact you shortly.''\<rparr>,
                Some st')))"

text \<open>
  The two POST routes: the body is validated against the schema of the handler's
  parameter first, and the handler runs only on a validated record.
\<close>

definition post_api_products ::
  "store option \<Rightarrow> product_body \<Rightarrow> (exn + created_response) \<times> store option"
where
  "post_api_products db body =
     (case validate_product body of
        Inl e \<Rightarrow> (Inl e, db)
      | Inr product \<Rightarrow> add_product db product)"

definition post_api_inquiries ::
  "store option \<Rightarrow> inquiry_body \<Rightarrow> (exn + created_response) \<times> store option"
where
  "post_api_inquiries db body =
     (case validate_inquiry body of
        Inl e \<Rightarrow> (Inl e, db)
      | Inr inquiry \<Rightarrow> create_inquiry db inquiry)"

section \<open>Diagnostics\<close>

text \<open>The three signs of the status strings, as their UTF-8 bytes.\<close>

definition check_mark :: string where
  "check_mark = [CHR 0xE2, CHR 0x9C, CHR 0x85]"

definition cross_mark :: string where
  "cross_mark = [CHR 0xE2, CHR 0x9D, CHR 0x8C]"

definition warning_sign :: string where
  "warning_sign = [CHR 0xE2, CHR 0x9A, CHR 0xA0, CHR 0xEF, CHR 0xB8, CHR 0x8F]"

record diagnostics =
  backend :: string
  database :: string
  database_url :: "string option"
  database_name :: "string option"
  connection_status :: string
  collections :: "string list"

text \<open>
  The outer \<open>try\<close> block of \<open>test_database\<close>: the response as far as it was filled
  in, and the exception that ended the block, if any. The probe of the collection
  names has a handler of its own.
\<close>

definition test_try ::
  "store option \<Rightarrow> diagnostics \<Rightarrow> exn option \<times> diagnostics \<times> store option"
where
  "test_try db response =
     (case db of
        Some st \<Rightarrow>
          (let response = response
                 \<lparr>database := check_mark @ '' Available'',
                  database_url := Some (check_mark @ '' Configured''),
                  database_name :=
                    Some (case db_name st of
                            Some n \<Rightarrow> n
                          | None \<Rightarrow> check_mark @ '' Connected''),
                  connection_status := ''Connected''\<rparr>
           in case list_collection_names st of
                (Inr cs, st') \<Rightarrow>
                  (None,
                   response\<lparr>collections := take 10 cs,
                            database := check_mark @ '' Connected & Working''\<rparr>,
                   Some st')
              | (Inl e, st') \<Rightarrow>
                  (None,
                   response\<lparr>database :=
                     warning_sign @ ''  Connected but Error: '' @ take 50 (exn_str e)\<rparr>,
                   Some st'))
      | None \<Rightarrow>
          (None, response\<lparr>database := warning_sign @ ''  Available but not initialized''\<rparr>,
           None))"

definition test_database ::
  "store option \<Rightarrow> (string \<Rightarrow> string option) \<Rightarrow> (exn + diagnostics) \<times> store option"
where
  "test_database db getenv =
     (let response = \<lparr>backend = check_mark @ '' Running'',
                      database = cross_mark @ '' Not Available'',
                      database_url = None,
                      database_name = None,
                      connection_status = ''Not Connected'',
                      collections = []\<rparr>;
          (raised, response, db') = test_try db response;
          response = (case raised of
                        None \<Rightarrow> response
                      | Some e \<Rightarrow>
                          response\<lparr>database := cross_mark @ '' Error: '' @ take 50 (exn_str e)\<rparr>);
          response = response
            \<lparr>database_url :=
               Some (if truthy (getenv ''DATABASE_URL'') then check_mark @ '' Set''
                     else cross_mark @ '' Not Set'')\<rparr>;
          response = response
            \<lparr>database_name :=
               Some (if truthy (getenv ''DATABASE_NAME'') then check_mark @ '' Set''
                     else cross_mark @ '' Not Set'')\<rparr>
      in (Inr response, db'))"

section \<open>A text query, as the specification reads it\<close>

text \<open>
  The specification's words for \<open>q\<close>: a "case-insensitive substring match against
  name". \<open>name_contains q d\<close> says so of a document: its name is a string, and \<open>q\<close>
  occurs in it as a contiguous run of characters, letters compared regardless of case.
  \<open>field_is k v d\<close> is the exact match on an optional parameter, which filters nothing
  when it is omitted or empty.
\<close>

definition name_contains :: "string \<Rightarrow> document \<Rightarrow> bool" where
  "name_contains q d =
     (case map_of d ''name'' of
        Some (VStr s) \<Rightarrow> sublist (map lower q) (map lower s)
      | other \<Rightarrow> False)"

fun field_is :: "string \<Rightarrow> string option \<Rightarrow> document \<Rightarrow> bool" where
  "field_is k None d = True"
| "field_is k (Some s) d = (s = [] \<or> map_of d k = Some (VStr s))"

section \<open>Example states\<close>

text \<open>
  A reachable store with no collection yet, and the store that holds the six samples
  under the identifiers 0 to 5.
\<close>

fun with_ids :: "nat \<Rightarrow> document list \<Rightarrow> document list" where
  "with_ids k [] = []"
| "with_ids k (d # ds) = ((''_id'', VObjectId k) # d) # with_ids (Suc k) ds"

definition fresh_store :: store where
  "fresh_store = \<lparr>colls = [], next_id = 0, faults = [], db_name = Some ''shop''\<rparr>"

definition seeded_store :: store where
  "seeded_store =
     \<lparr>colls = [(''product'', with_ids 0 samples)], next_id = 6, faults = [],
      db_name = Some ''shop''\<rparr>"

text \<open>
  A request body for a product with its validated record, and the body of an inquiry
  that gives a name and a phone number only.
\<close>

definition example_body :: product_body where
  "example_body =
     \<lparr>b_name = Value ''Exide Star 900'', b_brand = Value ''Exide'',
      b_type = Value ''inverter'', b_capacity_ah = Null, b_warranty_months = Value 24,
      b_price = Value 5200, b_description = Missing, b_in_stock = Missing\<rparr>"

definition example_product :: product where
  "example_product =
     \<lparr>p_name = ''Exide Star 900'', p_brand = ''Exide'', p_type = ''inverter'',
      p_capacity_ah = None, p_warranty_months = Some 24, p_price = Some 5200,
      p_description = None, p_in_stock = True\<rparr>"

definition example_inquiry_body :: inquiry_body where
  "example_inquiry_body =
     \<lparr>q_name = Value ''Asha'', q_phone = Value ''9876543210'', q_message = Missing,
      q_product_type = Missing, q_brand = Missing, q_preferred_contact = Missing,
      q_city = Missing\<rparr>"

section \<open>Facts about the store and the filters\<close>

lemma access_reachable: "faults st = [] \<Longrightarrow> access st = (None, st)"
  by (simp add: access_def)

lemma access_keeps:
  "colls (snd (access st)) = colls st"
  "next_id (snd (access st)) = next_id st"
  "db_name (snd (access st)) = db_name st"
  by (simp_all add: access_def split: list.splits option.splits)

lemma access_collection: "collection (snd (access st)) c = collection st c"
  by (simp add: collection_def access_keeps)

lemma map_of_put_collection_same: "map_of (put_collection c ds cs) c = Some ds"
  by (induction cs) auto

lemma create_document_reachable:
  "faults st = [] \<Longrightarrow>
   create_document st c data =
     (Inr (next_id st),
      st\<lparr>colls := put_collection c
                    (collection st c @ [(''_id'', VObjectId (next_id st)) # to_mapping data])
                    (colls st),
         next_id := Suc (next_id st)\<rparr>)"
  by (simp add: create_document_def access_reachable Let_def)

lemma collection_after_put:
  "collection (st\<lparr>colls := put_collection c ds (colls st), next_id := n\<rparr>) c = ds"
  by (simp add: collection_def map_of_put_collection_same)

lemma validate_product_fields:
  assumes "validate_product body = Inr p"
  shows "b_name body = Value (p_name p)"
    and "p_brand p \<in> set brand_literals" and "p_type p \<in> set type_literals"
proof -
  from assms obtain n br ty where
    n: "required (b_name body) = Some n" and
    br: "required_literal brand_literals (b_brand body) = Some br" and
    ty: "required_literal type_literals (b_type body) = Some ty" and
    p: "p_name p = n" "p_brand p = br" "p_type p = ty"
    by (auto simp: validate_product_def Let_def split: option.splits)
  from n p show "b_name body = Value (p_name p)"
    by (cases "b_name body") simp_all
  from br p show "p_brand p \<in> set brand_literals"
    by (cases "b_brand body") (simp_all split: if_splits)
  from ty p show "p_type p \<in> set type_literals"
    by (cases "b_type body") (simp_all split: if_splits)
qed

lemma validate_product_brand_None:
  "required_literal brand_literals (b_brand body) = None \<Longrightarrow>
   \<exists>fields. validate_product body = Inl (RequestValidationError fields) \<and> ''brand'' \<in> set fields"
  by (simp add: validate_product_def Let_def split: option.splits)

lemma validate_product_name_None:
  "required (b_name body) = None \<Longrightarrow>
   \<exists>fields. validate_product body = Inl (RequestValidationError fields) \<and> ''name'' \<in> set fields"
  by (simp add: validate_product_def Let_def split: option.splits)

lemma validate_product_any_name:
  assumes "validate_product body = Inr p"
  shows "validate_product (body\<lparr>b_name := Value s\<rparr>) = Inr (p\<lparr>p_name := s\<rparr>)"
  using assms
  by (auto simp: validate_product_def Let_def split: option.splits)

lemma dict_pop_id_dump: "dict_pop ''_id'' ((''_id'', v) # product_dump p) = product_dump p"
  by (simp add: dict_pop_def product_dump_def)

text \<open>A pattern without metacharacters is a case-insensitive substring search.\<close>

lemma compile_pattern_plain:
  "set q \<inter> set (CHR ''.'' # regex_other_meta) = {} \<Longrightarrow> compile_pattern q = Some (map PChar q)"
  by (induction q) auto

lemma match_here_plain:
  "match_here True (map PChar q) s = prefix (map lower q) (map lower s)"
proof (induction q arbitrary: s)
  case Nil
  then show ?case by simp
next
  case (Cons c q)
  then show ?case by (cases s) auto
qed

lemma regex_search_plain:
  "regex_search True (map PChar q) s = sublist (map lower q) (map lower s)"
proof (induction s)
  case Nil
  then show ?case by (cases q) simp_all
next
  case (Cons d s)
  then show ?case
    by (simp add: match_here_plain sublist_Cons_right)
qed

lemma ccond_equals_str:
  "ccond_holds (CEquals (VStr s)) (map_of d k) = (map_of d k = Some (VStr s))"
  by (cases "map_of d k") auto

lemma ccond_regex_name:
  "ccond_holds (CRegex True (map PChar q)) (map_of d ''name'') = name_contains q d"
proof (cases "map_of d ''name''")
  case None
  then show ?thesis by (simp add: name_contains_def)
next
  case (Some v)
  then show ?thesis
    by (cases v) (simp_all add: name_contains_def regex_search_plain)
qed

lemma built_filter:
  assumes "set q \<inter> set (CHR ''.'' # regex_other_meta) = {}" "q \<noteq> []"
  shows "\<exists>cf. compile_filter
            (add_filter ''name'' (\<lambda>s. Regex s ''i'') (Some q)
              (add_filter ''type'' (\<lambda>s. Equals (VStr s)) t
                (add_filter ''brand'' (\<lambda>s. Equals (VStr s)) b []))) = Some cf
          \<and> doc_matches cf =
              (\<lambda>d. field_is ''brand'' b d \<and> field_is ''type'' t d \<and> name_contains q d)"
proof -
  have cp: "compile_pattern q = Some (map PChar q)"
    using assms(1) by (rule compile_pattern_plain)
  show ?thesis
    using assms(2)
    by (cases b; cases t)
       (auto simp: cp doc_matches_def ccond_equals_str ccond_regex_name intro!: ext)
qed

lemma seed_try_nonempty:
  assumes "collection st ''product'' \<noteq> []"
  shows "colls (snd (seed_try st)) = colls st \<and> next_id (snd (seed_try st)) = next_id st"
proof (cases "access st")
  case (Pair r st')
  then have k: "colls st' = colls st" "next_id st' = next_id st"
    "collection st' ''product'' = collection st ''product''"
    using access_keeps[of st] access_collection[of st] by simp_all
  show ?thesis
    using Pair k assms
    by (cases r) (simp_all add: seed_try_def count_documents_def)
qed

text \<open>The example store holds the samples, each under its identifier.\<close>

lemma length_with_ids: "length (with_ids k ds) = length ds"
  by (induction ds arbitrary: k) simp_all

lemma seeded_nonempty: "collection seeded_store ''product'' \<noteq> []"
proof -
  have "length (collection seeded_store ''product'') = length samples"
    by (simp add: seeded_store_def collection_def length_with_ids)
  then show ?thesis by (auto simp: samples_def)
qed

lemma pop_seeded: "map (dict_pop ''_id'') (take 2 (with_ids 0 samples)) = take 2 samples"
  by (simp add: samples_def dict_pop_def)

text \<open>Seeding the empty, reachable store gives the example store.\<close>

lemma seed_fresh_store: "seed_products (Some fresh_store) = (Inr (), Some seeded_store)"
  by (simp add: seed_products_def seed_try_def count_documents_def access_def fresh_store_def
      seeded_store_def samples_def create_document_def collection_def)

section \<open>Creating a product, then listing it\<close>

text \<open>
  Claim C1. A body that passes validation is posted to a reachable store; the listing
  that follows, filtered on the brand and the type of the validated record, with no text
  query and a limit above the number of products held before, returns the record as
  validation produced it (its mapping, without the store's identifier).
\<close>

theorem created_product_is_listed:
  assumes v: "validate_product body = Inr p"
    and r: "faults st = []"
    and n: "int (length (collection st ''product'')) < n"
  shows "\<exists>created st1 resp db2.
           post_api_products (Some st) body = (Inr created, Some st1)
         \<and> list_products (Some st1) (Some (p_brand p)) (Some (p_type p)) None (Some n) =
             (Inr resp, db2)
         \<and> product_dump p \<in> set (items resp)"
proof -
  define doc where "doc = (''_id'', VObjectId (next_id st)) # product_dump p"
  define st1 where "st1 = st\<lparr>colls := put_collection ''product''
                    (collection st ''product'' @ [doc]) (colls st),
                  next_id := Suc (next_id st)\<rparr>"
  have post: "post_api_products (Some st) body =
      (Inr \<lparr>new_id = next_id st, message = ''Product added''\<rparr>, Some st1)"
    by (simp add: post_api_products_def v add_product_def create_document_reachable[OF r]
        st1_def doc_def)
  have c1: "collection st1 ''product'' = collection st ''product'' @ [doc]"
    by (simp add: st1_def collection_after_put)
  have r1: "faults st1 = []"
    by (simp add: st1_def r)
  have br: "p_brand p \<noteq> []" and ty: "p_type p \<noteq> []"
    using validate_product_fields(2,3)[OF v]
    by (auto simp: brand_literals_def type_literals_def)
  let ?cf = "[(''brand'', CEquals (VStr (p_brand p))), (''type'', CEquals (VStr (p_type p)))]"
  have m: "doc_matches ?cf doc"
    by (simp add: doc_matches_def doc_def product_dump_def)
  let ?found = "filter (doc_matches ?cf) (collection st1 ''product'')"
  have "length ?found \<le> length (collection st1 ''product'')"
    by (rule length_filter_le)
  also have "\<dots> \<le> nat n"
    using n by (simp add: c1)
  finally have le: "length ?found \<le> nat n" .
  then have tk: "take (nat n) ?found = ?found"
    by simp
  have mem: "doc \<in> set ?found"
    using m by (simp add: c1)
  have lst: "list_products (Some st1) (Some (p_brand p)) (Some (p_type p)) None (Some n) =
      (Inr \<lparr>items = map (dict_pop ''_id'') ?found,
            total = length (map (dict_pop ''_id'') ?found)\<rparr>, Some st1)"
    using br ty le
    by (simp add: list_products_def Let_def get_documents_def access_reachable[OF r1] tk)
  have "dict_pop ''_id'' doc \<in> dict_pop ''_id'' ` set ?found"
    using mem by (rule imageI)
  then have "dict_pop ''_id'' doc \<in> set (map (dict_pop ''_id'') ?found)"
    by (simp only: set_map)
  then have "product_dump p \<in> set (map (dict_pop ''_id'') ?found)"
    by (simp only: doc_def dict_pop_id_dump)
  with post lst show ?thesis
    by simp
qed

text \<open>
  Claim C1 at an instance: the example product posted to the empty store, then listed
  with \<open>brand=Exide\<close>, \<open>type=inverter\<close> and the limit 50.
\<close>

theorem created_product_is_listed_witness:
  "validate_product example_body = Inr example_product
   \<and> faults fresh_store = []
   \<and> int (length (collection fresh_store ''product'')) < 50
   \<and> fst (list_products (snd (post_api_products (Some fresh_store) example_body))
            (Some ''Exide'') (Some ''inverter'') None (Some 50))
       = Inr \<lparr>items = [product_dump example_product], total = 1\<rparr>"
proof -
  have v: "validate_product example_body = Inr example_product"
    by (simp add: validate_product_def example_body_def example_product_def
        brand_literals_def type_literals_def)
  have r: "faults fresh_store = []"
    by (simp add: fresh_store_def)
  have n: "int (length (collection fresh_store ''product'')) < 50"
    by (simp add: fresh_store_def collection_def)
  have e: "fst (list_products (snd (post_api_products (Some fresh_store) example_body))
            (Some ''Exide'') (Some ''inverter'') None (Some 50))
       = Inr \<lparr>items = [product_dump example_product], total = 1\<rparr>"
    using created_product_is_listed[OF v r n]
    by (simp add: post_api_products_def v add_product_def create_document_def access_def
        fresh_store_def collection_def list_products_def get_documents_def doc_matches_def
        product_dump_def example_product_def dict_pop_def)
  from v r n e show ?thesis by blast
qed

section \<open>Validation of a product body\<close>

text \<open>
  Claim C3. A product body whose brand is a string outside Amaron, Exide and Luminous
  is rejected: the response is the validation error, status 422, its fields include
  \<open>brand\<close>, and the handle is returned as it was, fault schedule included, so the
  store was not accessed. This holds for every state of the handle.
\<close>

theorem brand_outside_enumeration_rejected:
  assumes "b_brand body = Value s" and "s \<notin> {''Amaron'', ''Exide'', ''Luminous''}"
  shows "\<exists>fields. post_api_products db body = (Inl (RequestValidationError fields), db)
           \<and> ''brand'' \<in> set fields
           \<and> http_status 201 (fst (post_api_products db body)) = Some 422"
proof -
  have "required_literal brand_literals (b_brand body) = None"
    using assms by (simp add: brand_literals_def)
  then obtain fields where "validate_product body = Inl (RequestValidationError fields)"
    and "''brand'' \<in> set fields"
    using validate_product_brand_None by blast
  then show ?thesis by (simp add: post_api_products_def)
qed

text \<open>
  Claim C3 at an instance: the example body with the brand Duracell, posted to the
  store that holds the six samples.
\<close>

theorem brand_outside_enumeration_rejected_witness:
  "b_brand (example_body\<lparr>b_brand := Value ''Duracell''\<rparr>) = Value ''Duracell''
   \<and> ''Duracell'' \<notin> {''Amaron'', ''Exide'', ''Luminous''}
   \<and> post_api_products (Some seeded_store) (example_body\<lparr>b_brand := Value ''Duracell''\<rparr>)
       = (Inl (RequestValidationError [''brand'']), Some seeded_store)"
  using brand_outside_enumeration_rejected
          [of "example_body\<lparr>b_brand := Value ''Duracell''\<rparr>" "''Duracell''" "Some seeded_store"]
  by (simp add: post_api_products_def validate_product_def example_body_def
      brand_literals_def type_literals_def)

text \<open>
  Claim C4 as stated fails: \<open>name\<close> is declared as a required \<open>str\<close> with no
  bound on its length, so the body with the empty name passes validation and is
  persisted.
\<close>

theorem empty_name_accepted_counterexample:
  "validate_product (example_body\<lparr>b_name := Value []\<rparr>) = Inr (example_product\<lparr>p_name := []\<rparr>)
   \<and> post_api_products (Some fresh_store) (example_body\<lparr>b_name := Value []\<rparr>)
       = (Inr \<lparr>new_id = 0, message = ''Product added''\<rparr>,
          Some (fresh_store
            \<lparr>colls := [(''product'',
                 [[(''_id'', VObjectId 0), (''name'', VStr []), (''brand'', VStr ''Exide''),
                   (''type'', VStr ''inverter''), (''capacity_ah'', VNone),
                   (''warranty_months'', VInt 24), (''price'', VFloat 5200),
                   (''description'', VNone), (''in_stock'', VBool True)]])],
             next_id := 1\<rparr>))"
  by (simp add: post_api_products_def validate_product_def example_body_def example_product_def
      brand_literals_def type_literals_def add_product_def create_document_def access_def
      collection_def product_dump_def fresh_store_def)

text \<open>
  Claim C4, amended. The name of an accepted product is the text the body gave, whatever
  that text is: a body that is accepted stays accepted under any other name, the empty
  one included. A body whose name is missing, null or not text is rejected with the
  validation error, status 422, naming \<open>name\<close>, and nothing is persisted.
\<close>

theorem name_is_required_text:
  "(validate_product body = Inr p \<longrightarrow> b_name body = Value (p_name p))
   \<and> (validate_product body = Inr p \<longrightarrow>
        validate_product (body\<lparr>b_name := Value s\<rparr>) = Inr (p\<lparr>p_name := s\<rparr>))
   \<and> (b_name body \<in> {Missing, Null, Malformed} \<longrightarrow>
        (\<exists>fields. post_api_products db body = (Inl (RequestValidationError fields), db)
                  \<and> ''name'' \<in> set fields
                  \<and> http_status 201 (fst (post_api_products db body)) = Some 422))"
proof -
  have "b_name body \<in> {Missing, Null, Malformed} \<longrightarrow>
        (\<exists>fields. post_api_products db body = (Inl (RequestValidationError fields), db)
                  \<and> ''name'' \<in> set fields
                  \<and> http_status 201 (fst (post_api_products db body)) = Some 422)"
  proof
    assume "b_name body \<in> {Missing, Null, Malformed}"
    then have "required (b_name body) = None" by auto
    then obtain fields where "validate_product body = Inl (RequestValidationError fields)"
      "''name'' \<in> set fields"
      using validate_product_name_None by blast
    then show "\<exists>fields. post_api_products db body = (Inl (RequestValidationError fields), db)
                  \<and> ''name'' \<in> set fields
                  \<and> http_status 201 (fst (post_api_products db body)) = Some 422"
      by (simp add: post_api_products_def)
  qed
  then show ?thesis
    using validate_product_fields(1) validate_product_any_name by blast
qed

text \<open>
  Claim C4, amended, at instances: the example body, the same body under another name,
  and the same body without a name.
\<close>

theorem name_is_required_text_witness:
  "validate_product example_body = Inr example_product
   \<and> b_name example_body = Value (p_name example_product)
   \<and> validate_product (example_body\<lparr>b_name := Value ''X''\<rparr>) = Inr (example_product\<lparr>p_name := ''X''\<rparr>)
   \<and> b_name (example_body\<lparr>b_name := Missing\<rparr>) \<in> {Missing, Null, Malformed}
   \<and> post_api_products (Some seeded_store) (example_body\<lparr>b_name := Missing\<rparr>)
       = (Inl (RequestValidationError [''name'']), Some seeded_store)"
proof -
  have v: "validate_product example_body = Inr example_product"
    by (simp add: validate_product_def example_body_def example_product_def
        brand_literals_def type_literals_def)
  have m: "b_name (example_body\<lparr>b_name := Missing\<rparr>) \<in> {Missing, Null, Malformed}"
    by simp
  have a: "b_name example_body = Value (p_name example_product)"
    and b: "validate_product (example_body\<lparr>b_name := Value ''X''\<rparr>)
              = Inr (example_product\<lparr>p_name := ''X''\<rparr>)"
    using name_is_required_text[of example_body example_product "''X''"] v by blast+
  have c: "post_api_products (Some seeded_store) (example_body\<lparr>b_name := Missing\<rparr>)
       = (Inl (RequestValidationError [''name'']), Some seeded_store)"
    by (simp add: post_api_products_def validate_product_def example_body_def
        brand_literals_def type_literals_def)
  from v a b m c show ?thesis by blast
qed

section \<open>Inquiries\<close>

text \<open>
  Claim C7. An inquiry body with a name and a phone number and nothing else, posted to
  a reachable store, succeeds with status 201, and the document appended to the
  collection \<open>inquiry\<close> has \<open>preferred_contact\<close> whatsapp and \<open>city\<close>
  Veraval, Gir Somnath.
\<close>

theorem inquiry_defaults_persisted:
  assumes "q_name body = Value n" "q_phone body = Value ph"
    and "q_message body = Missing" "q_product_type body = Missing" "q_brand body = Missing"
    and "q_preferred_contact body = Missing" "q_city body = Missing"
    and "faults st = []"
  shows "\<exists>st'. post_api_inquiries (Some st) body =
            (Inr \<lparr>new_id = next_id st, message = ''Thanks! We will contact you shortly.''\<rparr>,
             Some st')
          \<and> collection st' ''inquiry'' = collection st ''inquiry'' @
              [[(''_id'', VObjectId (next_id st)), (''name'', VStr n), (''phone'', VStr ph),
                (''message'', VNone), (''product_type'', VNone), (''brand'', VNone),
                (''preferred_contact'', VStr ''whatsapp''),
                (''city'', VStr ''Veraval, Gir Somnath'')]]
          \<and> http_status 201 (fst (post_api_inquiries (Some st) body)) = Some 201"
proof -
  have v: "validate_inquiry body =
      Inr \<lparr>i_name = n, i_phone = ph, i_message = None, i_product_type = None, i_brand = None,
           i_preferred_contact = ''whatsapp'', i_city = Some ''Veraval, Gir Somnath''\<rparr>"
    using assms by (simp add: validate_inquiry_def)
  show ?thesis
    using assms(8)
    by (simp add: post_api_inquiries_def v create_inquiry_def create_document_reachable
        collection_after_put inquiry_dump_def)
qed

text \<open>
  Claim C7 at an instance: the example inquiry posted to the empty store.
\<close>

theorem inquiry_defaults_persisted_witness:
  "faults fresh_store = []
   \<and> post_api_inquiries (Some fresh_store) example_inquiry_body
       = (Inr \<lparr>new_id = 0, message = ''Thanks! We will contact you shortly.''\<rparr>,
          Some (fresh_store
            \<lparr>colls := [(''inquiry'',
                 [[(''_id'', VObjectId 0), (''name'', VStr ''Asha''),
                   (''phone'', VStr ''9876543210''), (''message'', VNone),
                   (''product_type'', VNone), (''brand'', VNone),
                   (''preferred_contact'', VStr ''whatsapp''),
                   (''city'', VStr ''Veraval, Gir Somnath'')]])],
             next_id := 1\<rparr>))"
  using inquiry_defaults_persisted[of example_inquiry_body "''Asha''" "''9876543210''" fresh_store]
  by (simp add: post_api_inquiries_def validate_inquiry_def example_inquiry_body_def
      contact_literals_def create_inquiry_def create_document_def access_def collection_def
      inquiry_dump_def fresh_store_def)

section \<open>Without a store handle\<close>

text \<open>
  Claim C8. With no handle the three handlers raise \<open>HTTPException(500)\<close>, for every
  argument, and so do the two POST routes on every body that passes validation; the
  handle stays absent. (A body that fails validation is answered with 422 before the
  handler runs, as claim C3 shows.)
\<close>

theorem no_handle_server_error:
  "list_products None brand type' q limit_arg =
     (Inl (HTTPException 500 ''Database not connected''), None)
   \<and> add_product None p = (Inl (HTTPException 500 ''Database not connected''), None)
   \<and> create_inquiry None i = (Inl (HTTPException 500 ''Database not connected''), None)
   \<and> (validate_product pbody = Inr p \<longrightarrow>
        post_api_products None pbody = (Inl (HTTPException 500 ''Database not connected''), None))
   \<and> (validate_inquiry ibody = Inr i \<longrightarrow>
        post_api_inquiries None ibody = (Inl (HTTPException 500 ''Database not connected''), None))
   \<and> http_status 200 (fst (list_products None brand type' q limit_arg)) = Some 500
   \<and> http_status 201 (fst (add_product None p)) = Some 500
   \<and> http_status 201 (fst (create_inquiry None i)) = Some 500"
  by (simp add: list_products_def add_product_def create_inquiry_def post_api_products_def
      post_api_inquiries_def)

text \<open>
  Claim C8 at instances: the example product and the example inquiry, and a listing.
\<close>

theorem no_handle_server_error_witness:
  "validate_product example_body = Inr example_product
   \<and> post_api_products None example_body =
       (Inl (HTTPException 500 ''Database not connected''), None)
   \<and> validate_inquiry example_inquiry_body =
       Inr \<lparr>i_name = ''Asha'', i_phone = ''9876543210'', i_message = None,
            i_product_type = None, i_brand = None, i_preferred_contact = ''whatsapp'',
            i_city = Some ''Veraval, Gir Somnath''\<rparr>
   \<and> post_api_inquiries None example_inquiry_body =
       (Inl (HTTPException 500 ''Database not connected''), None)
   \<and> list_products None (Some ''Exide'') None None (Some 2) =
       (Inl (HTTPException 500 ''Database not connected''), None)"
proof -
  have v: "validate_product example_body = Inr example_product"
    by (simp add: validate_product_def example_body_def example_product_def
        brand_literals_def type_literals_def)
  have w: "validate_inquiry example_inquiry_body =
       Inr \<lparr>i_name = ''Asha'', i_phone = ''9876543210'', i_message = None,
            i_product_type = None, i_brand = None, i_preferred_contact = ''whatsapp'',
            i_city = Some ''Veraval, Gir Somnath''\<rparr>"
    by (simp add: validate_inquiry_def example_inquiry_body_def contact_literals_def)
  from v w
    no_handle_server_error[of "Some ''Exide''" None None "Some 2" example_product
      "\<lparr>i_name = ''Asha'', i_phone = ''9876543210'', i_message = None,
            i_product_type = None, i_brand = None, i_preferred_contact = ''whatsapp'',
            i_city = Some ''Veraval, Gir Somnath''\<rparr>" example_body example_inquiry_body]
  show ?thesis by blast
qed

section \<open>The text query\<close>

text \<open>
  Claim C2 as stated fails: \<open>list_products\<close> hands \<open>q\<close> to the store as the pattern of
  \<open>{"$regex": q, "$options": "i"}\<close>, so a character of \<open>q\<close> that the pattern language
  reads as an operator keeps that meaning. The query of the single character dot returns a
  product whose name holds no dot.
\<close>

theorem text_query_dot_counterexample:
  "fst (list_products
         (Some (fresh_store
            \<lparr>colls := [(''product'',
                 [[(''_id'', VObjectId 0), (''name'', VStr ''Exide Xplore''),
                   (''brand'', VStr ''Exide''), (''type'', VStr ''bike-battery'')]])],
             next_id := 1\<rparr>))
         None None (Some ''.'') None)
     = Inr \<lparr>items = [[(''name'', VStr ''Exide Xplore''), (''brand'', VStr ''Exide''),
                      (''type'', VStr ''bike-battery'')]],
            total = 1\<rparr>
   \<and> \<not> name_contains ''.''
         [(''name'', VStr ''Exide Xplore''), (''brand'', VStr ''Exide''),
          (''type'', VStr ''bike-battery'')]"
proof -
  have "\<not> sublist (map lower ''.'') (map lower ''Exide Xplore'')"
    by (simp add: lower_def sublist_Cons_right)
  then show ?thesis
    by (simp add: list_products_def get_documents_def regex_other_meta_def access_def
        collection_def doc_matches_def dict_pop_def name_contains_def fresh_store_def)
qed

text \<open>
  Claim C2, amended. For a query \<open>q\<close> that is not empty and holds none of the
  characters the pattern language gives a meaning to, on a reachable store, the listing
  returns, in the order of the store and up to the limit (50 when omitted), exactly the
  products that pass the brand and type filters and whose name contains \<open>q\<close> as a
  case-insensitive substring; \<open>total\<close> is their number.
\<close>

theorem plain_text_query_is_substring_match:
  assumes "set q \<inter> set (CHR ''.'' # regex_other_meta) = {}" and "q \<noteq> []"
    and "faults st = []"
  shows "list_products (Some st) brand type' (Some q) limit_arg =
           (Inr \<lparr>items = map (dict_pop ''_id'')
                    (take (nat (case limit_arg of None \<Rightarrow> 50 | Some n \<Rightarrow> n))
                      (filter (\<lambda>d. field_is ''brand'' brand d \<and> field_is ''type'' type' d
                                   \<and> name_contains q d)
                         (collection st ''product''))),
                 total = length
                    (take (nat (case limit_arg of None \<Rightarrow> 50 | Some n \<Rightarrow> n))
                      (filter (\<lambda>d. field_is ''brand'' brand d \<and> field_is ''type'' type' d
                                   \<and> name_contains q d)
                         (collection st ''product'')))\<rparr>,
            Some st)"
proof -
  obtain cf where cf: "compile_filter
            (add_filter ''name'' (\<lambda>s. Regex s ''i'') (Some q)
              (add_filter ''type'' (\<lambda>s. Equals (VStr s)) type'
                (add_filter ''brand'' (\<lambda>s. Equals (VStr s)) brand []))) = Some cf"
    and m: "doc_matches cf =
              (\<lambda>d. field_is ''brand'' brand d \<and> field_is ''type'' type' d \<and> name_contains q d)"
    using built_filter[OF assms(1,2)] by blast
  show ?thesis
    unfolding list_products_def Let_def get_documents_def cf
    by (simp add: m access_reachable[OF assms(3)])
qed

text \<open>
  Claim C2, amended, at an instance: the query XP against the six samples finds
  Exide Xplore, the second of them.
\<close>

theorem plain_text_query_is_substring_match_witness:
  "set ''XP'' \<inter> set (CHR ''.'' # regex_other_meta) = {}
   \<and> ''XP'' \<noteq> []
   \<and> faults seeded_store = []
   \<and> fst (list_products (Some seeded_store) None None (Some ''XP'') None)
       = Inr \<lparr>items = [hd (tl samples)], total = 1\<rparr>"
proof -
  have a: "set ''XP'' \<inter> set (CHR ''.'' # regex_other_meta) = {}"
    by (simp add: regex_other_meta_def)
  have b: "''XP'' \<noteq> []" by simp
  have c: "faults seeded_store = []" by (simp add: seeded_store_def)
  have l: "map lower ''XP'' = ''xp''"
    by (simp add: lower_def)
  have n: "filter (name_contains ''XP'') (with_ids 0 samples) =
             [(''_id'', VObjectId (Suc 0)) # hd (tl samples)]"
    by (simp add: samples_def name_contains_def l lower_def sublist_Cons_right)
  have d: "collection seeded_store ''product'' = with_ids 0 samples"
    by (simp add: seeded_store_def collection_def)
  have e: "dict_pop ''_id'' ((''_id'', VObjectId (Suc 0)) # hd (tl samples)) = hd (tl samples)"
    by (simp add: samples_def dict_pop_def)
  have "fst (list_products (Some seeded_store) None None (Some ''XP'') None)
       = Inr \<lparr>items = [hd (tl samples)], total = 1\<rparr>"
    using plain_text_query_is_substring_match[OF a b c, of None None None]
    by (simp add: d n e)
  with a b c show ?thesis by blast
qed

section \<open>The seed step\<close>

text \<open>
  Claim C5. \<open>seed_products\<close> never raises, whatever the handle and whatever the store
  does: what reaches the caller is a normal return. Without a handle nothing happens.
  With a handle whose product collection holds a record, the collections and the
  identifier counter of the store are after the step what they were before it.
\<close>

theorem seed_is_silent_and_keeps_a_nonempty_catalogue:
  "fst (seed_products db) = Inr ()
   \<and> (db = None \<longrightarrow> snd (seed_products db) = None)
   \<and> (db = Some st \<and> collection st ''product'' \<noteq> [] \<longrightarrow>
        (\<exists>st'. snd (seed_products db) = Some st' \<and> colls st' = colls st
               \<and> next_id st' = next_id st))"
proof -
  have a: "fst (seed_products db) = Inr ()"
    by (cases db) (auto simp: seed_products_def split: prod.splits sum.splits)
  have b: "db = None \<longrightarrow> snd (seed_products db) = None"
    by (simp add: seed_products_def)
  have c: "db = Some st \<and> collection st ''product'' \<noteq> [] \<longrightarrow>
        (\<exists>st'. snd (seed_products db) = Some st' \<and> colls st' = colls st
               \<and> next_id st' = next_id st)"
  proof
    assume h: "db = Some st \<and> collection st ''product'' \<noteq> []"
    then have "colls (snd (seed_try st)) = colls st \<and> next_id (snd (seed_try st)) = next_id st"
      using seed_try_nonempty by blast
    then show "\<exists>st'. snd (seed_products db) = Some st' \<and> colls st' = colls st
               \<and> next_id st' = next_id st"
      using h by (cases "seed_try st") (auto simp: seed_products_def split: sum.splits)
  qed
  from a b c show ?thesis by blast
qed

text \<open>
  Claim C5 at instances: the store that holds the six samples, reachable or failing at
  the count, is left as it was; on the empty store, a failure of the first insertion is
  swallowed; without a handle the step returns.
\<close>

theorem seed_is_silent_and_keeps_a_nonempty_catalogue_witness:
  "collection seeded_store ''product'' \<noteq> []
   \<and> seed_products (Some seeded_store) = (Inr (), Some seeded_store)
   \<and> seed_products (Some (seeded_store\<lparr>faults := [Some ''down'']\<rparr>)) = (Inr (), Some seeded_store)
   \<and> seed_products (Some (fresh_store\<lparr>faults := [None, Some ''down'']\<rparr>)) = (Inr (), Some fresh_store)
   \<and> seed_products None = (Inr (), None)"
proof -
  note ne = seeded_nonempty
  have a: "seed_products (Some seeded_store) = (Inr (), Some seeded_store)"
    using ne seed_is_silent_and_keeps_a_nonempty_catalogue[of "Some seeded_store" seeded_store]
    by (simp add: seed_products_def seed_try_def count_documents_def access_def seeded_store_def)
  have b: "seed_products (Some (seeded_store\<lparr>faults := [Some ''down'']\<rparr>)) = (Inr (), Some seeded_store)"
    by (simp add: seed_products_def seed_try_def count_documents_def access_def seeded_store_def)
  have c: "seed_products (Some (fresh_store\<lparr>faults := [None, Some ''down'']\<rparr>)) = (Inr (), Some fresh_store)"
    by (simp add: seed_products_def seed_try_def count_documents_def access_def fresh_store_def
        collection_def samples_def create_document_def)
  have d: "seed_products None = (Inr (), None)"
    by (simp add: seed_products_def)
  from ne a b c d show ?thesis by blast
qed

section \<open>The limit of a listing\<close>

text \<open>
  Claim C6 as stated fails for a negative limit: \<open>limit\<close> is any \<open>int\<close>, the handler
  passes it on unchecked, and no list has fewer than zero records.
\<close>

theorem negative_limit_counterexample:
  "list_products (Some seeded_store) None None None (Some (- 1))
     = (Inr \<lparr>items = [], total = 0\<rparr>, Some seeded_store)
   \<and> \<not> int (length (items \<lparr>items = [], total = 0\<rparr>)) \<le> - 1"
  by (simp add: list_products_def get_documents_def access_def seeded_store_def)

text \<open>
  Claim C6, amended. For every limit \<open>n\<close> that is not negative, a listing that returns
  holds at most \<open>n\<close> records, and \<open>total\<close> is their number; a listing without a
  limit is the listing with the limit 50.
\<close>

theorem listing_respects_limit:
  "(0 \<le> n \<longrightarrow> list_products db brand type' q (Some n) = (Inr r, db') \<longrightarrow>
      int (length (items r)) \<le> n \<and> total r = length (items r))
   \<and> list_products db brand type' q None = list_products db brand type' q (Some 50)"
  by (cases db)
     (auto simp: list_products_def Let_def get_documents_def
           split: prod.splits sum.splits option.splits)

text \<open>
  Claim C6, amended, at an instance: the limit 2 against the six samples returns the
  first two of them.
\<close>

theorem listing_respects_limit_witness:
  "(0::int) \<le> 2
   \<and> list_products (Some seeded_store) None None None (Some 2)
       = (Inr \<lparr>items = take 2 samples, total = 2\<rparr>, Some seeded_store)
   \<and> int (length (items \<lparr>items = take 2 samples, total = 2\<rparr>)) \<le> 2
   \<and> length samples = 6"
proof -
  have l: "list_products (Some seeded_store) None None None (Some 2)
       = (Inr \<lparr>items = take 2 samples, total = 2\<rparr>, Some seeded_store)"
  proof -
    have c: "collection seeded_store ''product'' = with_ids 0 samples"
      by (simp add: seeded_store_def collection_def)
    have f: "faults seeded_store = []" by (simp add: seeded_store_def)
    have n: "length samples = 6" by (simp add: samples_def)
    show ?thesis
      by (simp add: list_products_def get_documents_def access_reachable[OF f] c
          doc_matches_def pop_seeded length_with_ids n)
  qed
  have "int (length (items \<lparr>items = take 2 samples, total = 2\<rparr>)) \<le> 2"
    using listing_respects_limit[of 2 "Some seeded_store" None None None
            "\<lparr>items = take 2 samples, total = 2\<rparr>" "Some seeded_store"] l
    by simp
  moreover have "length samples = 6" by (simp add: samples_def)
  ultimately show ?thesis using l by simp
qed

section \<open>The diagnostics route\<close>

text \<open>
  Claim C9. \<open>test_database\<close> returns a response, status 200, for every handle and every
  environment. \<open>backend\<close> always reads running, and \<open>database_url\<close> and
  \<open>database_name\<close> depend on the environment alone. Without a handle, \<open>database\<close>
  says so. With a handle whose probe of the collection names raises, \<open>database\<close> carries
  the first 50 characters of the message, while \<open>connection_status\<close> reads connected and
  \<open>collections\<close> stays empty. With a handle whose probe succeeds, \<open>collections\<close>
  holds the first ten names.
\<close>

theorem diagnostics_never_fails:
  "\<exists>resp db'. test_database db getenv = (Inr resp, db')
     \<and> http_status 200 (fst (test_database db getenv)) = Some 200
     \<and> backend resp = check_mark @ '' Running''
     \<and> database_url resp =
         Some (if truthy (getenv ''DATABASE_URL'') then check_mark @ '' Set''
               else cross_mark @ '' Not Set'')
     \<and> database_name resp =
         Some (if truthy (getenv ''DATABASE_NAME'') then check_mark @ '' Set''
               else cross_mark @ '' Not Set'')
     \<and> (db = None \<longrightarrow>
           database resp = warning_sign @ ''  Available but not initialized''
           \<and> connection_status resp = ''Not Connected'' \<and> collections resp = [])
     \<and> (\<forall>st msg rest. db = Some st \<and> faults st = Some msg # rest \<longrightarrow>
           database resp = warning_sign @ ''  Connected but Error: '' @ take 50 msg
           \<and> connection_status resp = ''Connected'' \<and> collections resp = [])
     \<and> (\<forall>st. db = Some st \<and> (faults st = [] \<or> (\<exists>rest. faults st = None # rest)) \<longrightarrow>
           database resp = check_mark @ '' Connected & Working''
           \<and> connection_status resp = ''Connected''
           \<and> collections resp = take 10 (map fst (colls st)))"
proof (cases db)
  case None
  then show ?thesis
    by (simp add: test_database_def test_try_def)
next
  case (Some st)
  show ?thesis
  proof (cases "faults st")
    case Nil
    then show ?thesis using Some
      by (simp add: test_database_def test_try_def list_collection_names_def access_def)
  next
    case (Cons f rest)
    then show ?thesis using Some
      by (cases f)
         (simp_all add: test_database_def test_try_def list_collection_names_def access_def)
  qed
qed

text \<open>
  Claim C9 at instances: no handle; a handle whose probe times out; a working handle.
\<close>

theorem diagnostics_never_fails_witness:
  "test_database None (\<lambda>k. None) =
     (Inr \<lparr>backend = check_mark @ '' Running'',
           database = warning_sign @ ''  Available but not initialized'',
           database_url = Some (cross_mark @ '' Not Set''),
           database_name = Some (cross_mark @ '' Not Set''),
           connection_status = ''Not Connected'', collections = []\<rparr>, None)
   \<and> test_database (Some (seeded_store\<lparr>faults := [Some ''timed out'']\<rparr>)) (\<lambda>k. Some ''x'') =
     (Inr \<lparr>backend = check_mark @ '' Running'',
           database = warning_sign @ ''  Connected but Error: timed out'',
           database_url = Some (check_mark @ '' Set''),
           database_name = Some (check_mark @ '' Set''),
           connection_status = ''Connected'', collections = []\<rparr>, Some seeded_store)
   \<and> test_database (Some seeded_store) (\<lambda>k. Some []) =
     (Inr \<lparr>backend = check_mark @ '' Running'',
           database = check_mark @ '' Connected & Working'',
           database_url = Some (cross_mark @ '' Not Set''),
           database_name = Some (cross_mark @ '' Not Set''),
           connection_status = ''Connected'', collections = [''product'']\<rparr>, Some seeded_store)"
  using diagnostics_never_fails[of None "\<lambda>k. None"]
    diagnostics_never_fails[of "Some (seeded_store\<lparr>faults := [Some ''timed out'']\<rparr>)" "\<lambda>k. Some ''x''"]
    diagnostics_never_fails[of "Some seeded_store" "\<lambda>k. Some []"]
  by (simp add: test_database_def test_try_def list_collection_names_def access_def
      seeded_store_def)

section \<open>Empty filter parameters\<close>

text \<open>
  Claim C10. An empty string for \<open>brand\<close>, \<open>type\<close> or \<open>q\<close> gives the same
  outcome, and the same store, as leaving the parameter out, whatever the other
  parameters and the handle are.
\<close>

theorem empty_string_filter_is_omitted:
  "list_products db (Some []) type' q limit_arg = list_products db None type' q limit_arg
   \<and> list_products db brand (Some []) q limit_arg = list_products db brand None q limit_arg
   \<and> list_products db brand type' (Some []) limit_arg = list_products db brand type' None limit_arg"
  by (cases db) (simp_all add: list_products_def Let_def)

text \<open>
  Claim C10 at an instance: three empty strings against the six samples, limit 2.
\<close>

theorem empty_string_filter_is_omitted_witness:
  "list_products (Some seeded_store) (Some []) (Some []) (Some []) (Some 2)
     = (Inr \<lparr>items = take 2 samples, total = 2\<rparr>, Some seeded_store)
   \<and> list_products (Some seeded_store) None None None (Some 2)
     = (Inr \<lparr>items = take 2 samples, total = 2\<rparr>, Some seeded_store)"
proof -
  have e: "list_products (Some seeded_store) (Some []) (Some []) (Some []) (Some 2)
     = list_products (Some seeded_store) None None None (Some 2)"
    using empty_string_filter_is_omitted
            [where db = "Some seeded_store" and type' = "Some []" and q = "Some []"
               and limit_arg = "Some 2" and brand = None]
      empty_string_filter_is_omitted
            [where db = "Some seeded_store" and type' = None and q = "Some []"
               and limit_arg = "Some 2" and brand = None]
    by simp
  have c: "collection seeded_store ''product'' = with_ids 0 samples"
    by (simp add: seeded_store_def collection_def)
  have f: "faults seeded_store = []" by (simp add: seeded_store_def)
  have n: "length samples = 6" by (simp add: samples_def)
  have l: "list_products (Some seeded_store) None None None (Some 2)
     = (Inr \<lparr>items = take 2 samples, total = 2\<rparr>, Some seeded_store)"
    by (simp add: list_products_def get_documents_def access_reachable[OF f] c
        doc_matches_def pop_seeded length_with_ids n)
  from e l show ?thesis by simp
qed

end
